theory Spec2Isabelle
  imports Main
begin

section \<open>JavaScript values\<close>

text \<open>
  The controller handles untyped JavaScript values: the request body, the transport's
  error, the parsed response and the error objects it builds. An object is a list of
  fields in insertion order. Numbers are the integers (HTTP status codes and the
  constant 400 are the only numbers the controller touches).
\<close>

datatype jsvalue =
    JUndefined
  | JNull
  | JBool bool
  | JNum int
  | JStr string
  | JArr "jsvalue list"
  | JObj "(string \<times> jsvalue) list"

text \<open>The test \<open>if (_error)\<close>: JavaScript's truthiness.\<close>

fun truthy :: "jsvalue \<Rightarrow> bool" where
  "truthy JUndefined = False"
| "truthy JNull = False"
| "truthy (JBool b) = b"
| "truthy (JNum n) = (n \<noteq> 0)"
| "truthy (JStr s) = (s \<noteq> [])"
| "truthy (JArr vs) = True"
| "truthy (JObj kvs) = True"

fun nullish :: "jsvalue \<Rightarrow> bool" where
  "nullish JUndefined = True"
| "nullish JNull = True"
| "nullish v = False"

section \<open>The helpers of APIHelper\<close>

text \<open>
  \<open>collapse\<close> is the replacement \<open>replace(/\/\/+/g, '/')\<close>: every run of two or
  more slashes becomes one slash.
\<close>

fun collapse :: "string \<Rightarrow> string" where
  "collapse [] = []"
| "collapse [c] = [c]"
| "collapse (a # b # cs) =
     (if a = CHR ''/'' \<and> b = CHR ''/'' then collapse (b # cs) else a # collapse (b # cs))"

definition strip_scheme :: "string \<Rightarrow> (string \<times> string) option" where
  "strip_scheme url =
     (if take 7 url = ''http://'' then Some (''http://'', drop 7 url)
      else if take 8 url = ''https://'' then Some (''https://'', drop 8 url)
      else None)"

text \<open>
  Modelled from the spec: \<open>APIHelper.cleanUrl\<close> is not among the sources; the
  controller calls it with one argument, the base URI followed by the path, under the
  comment "validate and preprocess url". The spec describes it as the normalisation of
  that concatenation to a normalised absolute URL that collapses duplicate separators. The model keeps the scheme (\<open>http://\<close> or
  \<open>https://\<close>) and the host after it (the non-empty run of characters up to the first
  slash) as they are and collapses every run of slashes in the rest. A string that
  does not start with a scheme and a host is not absolute and has no normalised
  absolute URL: the result is \<open>None\<close> (JavaScript's \<open>null\<close>).
\<close>

definition cleanUrl :: "string \<Rightarrow> string option" where
  "cleanUrl url =
     (case strip_scheme url of
        None \<Rightarrow> None
      | Some (scheme, rest) \<Rightarrow>
          (case takeWhile (\<lambda>c. c \<noteq> CHR ''/'') rest of
             [] \<Rightarrow> None
           | h # hs \<Rightarrow>
               Some (scheme @ (h # hs) @ collapse (dropWhile (\<lambda>c. c \<noteq> CHR ''/'') rest))))"

text \<open>
  Modelled from the spec: \<open>APIHelper.cleanObject\<close> is not among the sources. The
  spec calls it the "strip null fields" pass, a runtime mutation of the request object;
  the controller discards its result and serialises the object it passed in, so the
  pass works in place. The model gives the object as it is after the pass: a field
  whose value is \<open>null\<close> or \<open>undefined\<close> is removed, the other fields are cleaned in
  turn, and so are the elements of an array.
\<close>

fun cleanObject :: "jsvalue \<Rightarrow> jsvalue"
  and cleanFields :: "(string \<times> jsvalue) list \<Rightarrow> (string \<times> jsvalue) list"
  and cleanElements :: "jsvalue list \<Rightarrow> jsvalue list" where
  "cleanObject (JObj kvs) = JObj (cleanFields kvs)"
| "cleanObject (JArr vs) = JArr (cleanElements vs)"
| "cleanObject JUndefined = JUndefined"
| "cleanObject JNull = JNull"
| "cleanObject (JBool b) = JBool b"
| "cleanObject (JNum n) = JNum n"
| "cleanObject (JStr s) = JStr s"
| "cleanFields [] = []"
| "cleanFields (kv # kvs) =
     (if nullish (snd kv) then cleanFields kvs
      else (fst kv, cleanObject (snd kv)) # cleanFields kvs)"
| "cleanElements [] = []"
| "cleanElements (v # vs) = cleanObject v # cleanElements vs"

section \<open>Configuration, requests and responses\<close>

text \<open>
  The module \<open>configuration\<close> is process-wide state the controller reads. The
  request descriptor \<open>_options\<close> has the fields the controller writes (its field
  \<open>method\<close> is \<open>httpMethod\<close> here); the GET request has no \<open>body\<close> field. Of the
  transport's response the controller reads \<open>statusCode\<close> and \<open>body\<close> (here
  \<open>responseBody\<close>).
\<close>

record configuration =
  BASEURI :: string
  basicAuthUserName :: string
  basicAuthPassword :: string

datatype http_method = GET | POST

record request_options =
  queryUrl :: "string option"
  httpMethod :: http_method
  headers :: "(string \<times> string) list"
  body :: "string option"
  username :: string
  password :: string

record http_response =
  statusCode :: int
  responseBody :: string

text \<open>The object \<open>validateResponse\<close> returns; its field \<open>context\<close> is \<open>ctx\<close> here.\<close>

record 'c error_response =
  error :: jsvalue
  response :: jsvalue
  ctx :: 'c

text \<open>
  The collaborators that are not among the sources are parameters of the model:
  \<^item> \<open>jsonSerialize\<close>: \<open>APIHelper.jsonSerialize\<close>;
  \<^item> \<open>JSON_parse\<close>: the built-in \<open>JSON.parse\<close>, \<open>None\<close> when it throws;
  \<^item> \<open>validateResponse\<close>: \<open>BaseController.validateResponse\<close>, from the context and
    the operation's name to the object with the fields error, response and context;
  \<^item> \<open>mapObject\<close>: the object mapper, \<open>None\<close> when it throws;
  \<^item> \<open>request\<close>: the transport \<open>RequestClient\<close>, from the request descriptor to the
    arguments \<open>(_error, _response, _context)\<close> it hands to the response handler
    (\<open>_response\<close> may be missing).
  The type \<open>'c\<close> is the transport's context, which the controller only passes on.

  Modelled from the spec: the transport is not among the sources. The spec gives its
  contract as a function of the request descriptor and of a callback that receives
  (error, response, context), one response per request, and every call as
  asynchronous: the transport calls the response handler once, after the operation has
  returned its promise.
\<close>

record 'c collaborators =
  jsonSerialize :: "jsvalue \<Rightarrow> string"
  JSON_parse :: "string \<Rightarrow> jsvalue option"
  validateResponse :: "'c \<Rightarrow> string \<Rightarrow> 'c error_response"
  mapObject :: "jsvalue \<Rightarrow> string \<Rightarrow> jsvalue option"
  request :: "request_options \<Rightarrow> jsvalue \<times> http_response option \<times> 'c"


section \<open>Effects\<close>

text \<open>
  An exception nothing in the controller catches ends the handler. A caller's callback
  is a JavaScript function of the three arguments (error, response, context): invoked,
  it returns or it throws.
\<close>

datatype fault = SyntaxError | TypeError | MapperError | Thrown jsvalue

datatype completion = Returned | Threw fault

type_synonym 'c js_function = "jsvalue \<Rightarrow> jsvalue \<Rightarrow> 'c \<Rightarrow> completion"

text \<open>
  What a call does, in order, is a list of events: the logger's lines, the request
  handed to the transport, the invocation of \<open>_callback\<close> with its three arguments,
  and the calls of the promise's \<open>_fulfill\<close> and \<open>_reject\<close>. \<open>_callback\<close> is the
  caller's function when the caller passed one, and the placeholder
  \<open>() => undefined\<close>, which returns, otherwise.
\<close>

datatype level = Info | Debug | Error

datatype message =
    Text string
  | RawRequest string request_options
  | RawResponse string http_response
  | Cause jsvalue

datatype 'c jsarg = Function "'c js_function" | NotFunction jsvalue

datatype 'c callee = Supplied "'c js_function" | Placeholder

datatype 'c event =
    Log level message
  | PrintErrorLog int string
  | Send request_options
  | Call "'c callee" jsvalue jsvalue 'c
  | Fulfill jsvalue
  | Reject jsvalue

fun invoke :: "'c callee \<Rightarrow> 'c js_function" where
  "invoke (Supplied f) e d c = f e d c"
| "invoke Placeholder e d c = Returned"

fun is_settle :: "'c event \<Rightarrow> bool" where
  "is_settle (Fulfill v) = True"
| "is_settle (Reject e) = True"
| "is_settle ev = False"

text \<open>The functions invoked as \<open>_callback\<close>, and the requests handed to the transport.\<close>

fun callees :: "'c event list \<Rightarrow> 'c callee list" where
  "callees [] = []"
| "callees (Call f e d c # es) = f # callees es"
| "callees (ev # es) = callees es"

definition callbacks :: "'c event list \<Rightarrow> nat" where
  "callbacks es = length (callees es)"

fun sent :: "'c event list \<Rightarrow> request_options list" where
  "sent [] = []"
| "sent (Send options # es) = options # sent es"
| "sent (ev # es) = sent es"

definition settlements :: "'c event list \<Rightarrow> nat" where
  "settlements es = length (filter is_settle es)"

text \<open>The events that are not lines of the log.\<close>

fun effects :: "'c event list \<Rightarrow> 'c event list" where
  "effects [] = []"
| "effects (Log l m # es) = effects es"
| "effects (PrintErrorLog n s # es) = effects es"
| "effects (ev # es) = ev # effects es"

text \<open>
  The promise is a single-shot machine: the first \<open>_fulfill\<close> or \<open>_reject\<close> settles
  it and a later one changes nothing.
\<close>

datatype promise_state = Pending | Fulfilled jsvalue | Rejected jsvalue

fun settle :: "promise_state \<Rightarrow> 'c event \<Rightarrow> promise_state" where
  "settle Pending (Fulfill v) = Fulfilled v"
| "settle Pending (Reject e) = Rejected e"
| "settle s ev = s"

definition promise_of :: "'c event list \<Rightarrow> promise_state" where
  "promise_of es = foldl settle Pending es"

text \<open>The callback and the settlement of a trace, in the order they happen.\<close>

datatype step = CallbackStep | FulfillStep | RejectStep

fun steps :: "'c event list \<Rightarrow> step list" where
  "steps [] = []"
| "steps (Call f e d c # es) = CallbackStep # steps es"
| "steps (Fulfill v # es) = FulfillStep # steps es"
| "steps (Reject e # es) = RejectStep # steps es"
| "steps (ev # es) = steps es"

text \<open>
  What a call leaves behind: the events in order, the promise it returned, how the
  response handler ended, and the process-wide configuration after the call.
\<close>

record 'c outcome =
  trace :: "'c event list"
  promise :: promise_state
  finished :: completion
  config_after :: configuration

section \<open>RepliesController\<close>

text \<open>
  \<open>const _callback = typeof callback === 'function' ? callback : () => undefined\<close>
\<close>

definition select_callback :: "'c jsarg \<Rightarrow> 'c callee" where
  "select_callback callback =
     (case callback of Function f \<Rightarrow> Supplied f | NotFunction v \<Rightarrow> Placeholder)"

text \<open>
  Every branch of both handlers ends with the two statements
  \<open>_callback(e, d, c); settle(v);\<close> where \<open>settle\<close> is \<open>_fulfill\<close> or \<open>_reject\<close>.
  Nothing catches what the callback throws: the settlement is reached only when the
  callback returns.
\<close>

definition callback_then :: "'c callee \<Rightarrow> jsvalue \<Rightarrow> jsvalue \<Rightarrow> 'c \<Rightarrow> 'c event \<Rightarrow>
    'c event list \<times> completion" where
  "callback_then cb e d c settlement =
     (case invoke cb e d c of
        Returned \<Rightarrow> ([Call cb e d c, settlement], Returned)
      | Threw x \<Rightarrow> ([Call cb e d c], Threw x))"

text \<open>The events \<open>es\<close>, then what \<open>rest\<close> does.\<close>

definition after :: "'c event list \<Rightarrow> 'c event list \<times> completion \<Rightarrow> 'c event list \<times> completion" where
  "after es rest = (es @ fst rest, snd rest)"

subsection \<open>createConfirmRepliesAsReceived\<close>

text \<open>
  The request descriptor \<open>_options\<close>, built from the configuration and the body as
  it is after the pass that removes null values.
\<close>

definition createConfirmRepliesAsReceived_options ::
  "'c collaborators \<Rightarrow> configuration \<Rightarrow> jsvalue \<Rightarrow> request_options" where
  "createConfirmRepliesAsReceived_options env cfg cleaned =
     \<lparr> queryUrl = cleanUrl (BASEURI cfg @ ''/v1/replies/confirmed''),
       httpMethod = POST,
       headers =
         [(''accept'', ''application/json''),
          (''content-type'', ''application/json; charset=utf-8''),
          (''user-agent'', ''messagemedia-messages-nodejs-sdk-1.0.0'')],
       body = Some (jsonSerialize env cleaned),
       username = basicAuthUserName cfg,
       password = basicAuthPassword cfg \<rparr>"

text \<open>
  The response handler \<open>(_error, _response, _context) => { ... }\<close>. Reading
  \<open>statusCode\<close> of a missing response throws a TypeError.
\<close>

definition createConfirmRepliesAsReceived_handler ::
  "'c collaborators \<Rightarrow> 'c callee \<Rightarrow> jsvalue \<Rightarrow> http_response option \<Rightarrow> 'c \<Rightarrow>
     'c event list \<times> completion" where
  "createConfirmRepliesAsReceived_handler env cb err resp context =
     (if truthy err then
        (let errorResponse = validateResponse env context ''createConfirmRepliesAsReceived''
         in after [Log Error (Cause err)]
              (callback_then cb (error errorResponse) (response errorResponse)
                 (ctx errorResponse) (Reject (error errorResponse))))
      else
        (case resp of
           None \<Rightarrow> ([], Threw TypeError)
         | Some r \<Rightarrow>
             if 200 \<le> statusCode r \<and> statusCode r \<le> 206 then
               (case JSON_parse env (responseBody r) of
                  None \<Rightarrow>
                    ([Log Debug (RawResponse ''createConfirmRepliesAsReceived'' r)],
                     Threw SyntaxError)
                | Some parsed \<Rightarrow>
                    after [Log Debug (RawResponse ''createConfirmRepliesAsReceived'' r)]
                      (callback_then cb JNull parsed context (Fulfill parsed)))
             else if statusCode r = 400 then
               (let e = JObj [(''errorMessage'', JStr []),
                              (''errorCode'', JNum 400),
                              (''errorResponse'', JStr (responseBody r))]
                in after [PrintErrorLog (statusCode r) ''createConfirmRepliesAsReceived'']
                     (callback_then cb e JNull context (Reject e)))
             else
               (let errorResponse =
                      validateResponse env context ''createConfirmRepliesAsReceived''
                in after [Log Info (Text ''Validating response for createConfirmRepliesAsReceived '')]
                     (callback_then cb (error errorResponse) (response errorResponse)
                        (ctx errorResponse) (Reject (error errorResponse))))))"

text \<open>
  The events before the transport's reply: the logger's lines and the request handed
  to the transport.
\<close>

definition createConfirmRepliesAsReceived_prelude :: "request_options \<Rightarrow> 'c event list" where
  "createConfirmRepliesAsReceived_prelude options =
     [Log Info (Text ''createConfirmRepliesAsReceived being called''),
      Log Info (Text ''Preparing Query URL for createConfirmRepliesAsReceived''),
      Log Info (Text ''Preparing headers for createConfirmRepliesAsReceived''),
      Log Debug (RawRequest ''createConfirmRepliesAsReceived'' options),
      Log Info (Text ''Sending request for createConfirmRepliesAsReceived...''),
      Send options]"

text \<open>
  The whole call. The first component is the caller's request object after the call
  (\<open>cleanObject\<close> works on the object the caller passed). The transport hands its
  reply to the handler once, after the call has returned the promise, so an exception
  of the handler does not reach the promise.
\<close>

definition createConfirmRepliesAsReceived ::
  "'c collaborators \<Rightarrow> configuration \<Rightarrow> jsvalue \<Rightarrow> 'c jsarg \<Rightarrow> jsvalue \<times> 'c outcome" where
  "createConfirmRepliesAsReceived env cfg request_body callback =
     (let cb = select_callback callback;
          cleaned = cleanObject request_body;
          options = createConfirmRepliesAsReceived_options env cfg cleaned;
          (err, resp, context) = request env options;
          (handled, fin) = createConfirmRepliesAsReceived_handler env cb err resp context;
          es = createConfirmRepliesAsReceived_prelude options @ handled
      in (cleaned,
          \<lparr> trace = es, promise = promise_of es, finished = fin, config_after = cfg \<rparr>))"


subsection \<open>getCheckReplies\<close>

definition getCheckReplies_options :: "configuration \<Rightarrow> request_options" where
  "getCheckReplies_options cfg =
     \<lparr> queryUrl = cleanUrl (BASEURI cfg @ ''/v1/replies''),
       httpMethod = GET,
       headers =
         [(''accept'', ''application/json''),
          (''user-agent'', ''messagemedia-messages-nodejs-sdk-1.0.0'')],
       body = None,
       username = basicAuthUserName cfg,
       password = basicAuthPassword cfg \<rparr>"

definition getCheckReplies_handler ::
  "'c collaborators \<Rightarrow> 'c callee \<Rightarrow> jsvalue \<Rightarrow> http_response option \<Rightarrow> 'c \<Rightarrow>
     'c event list \<times> completion" where
  "getCheckReplies_handler env cb err resp context =
     (if truthy err then
        (let errorResponse = validateResponse env context ''getCheckReplies''
         in after [Log Error (Cause err)]
              (callback_then cb (error errorResponse) (response errorResponse)
                 (ctx errorResponse) (Reject (error errorResponse))))
      else
        (case resp of
           None \<Rightarrow> ([], Threw TypeError)
         | Some r \<Rightarrow>
             if 200 \<le> statusCode r \<and> statusCode r \<le> 206 then
               (case JSON_parse env (responseBody r) of
                  None \<Rightarrow> ([Log Debug (RawResponse ''getCheckReplies'' r)], Threw SyntaxError)
                | Some parsed \<Rightarrow>
                    (case mapObject env parsed ''CheckRepliesResponse'' of
                       None \<Rightarrow>
                         ([Log Debug (RawResponse ''getCheckReplies'' r),
                           Log Info (Text ''Deserializing response for getCheckReplies'')],
                          Threw MapperError)
                     | Some mapped \<Rightarrow>
                         after [Log Debug (RawResponse ''getCheckReplies'' r),
                                Log Info (Text ''Deserializing response for getCheckReplies'')]
                           (callback_then cb JNull mapped context (Fulfill mapped))))
             else
               (let errorResponse = validateResponse env context ''getCheckReplies''
                in after [Log Info (Text ''Validating response for getCheckReplies '')]
                     (callback_then cb (error errorResponse) (response errorResponse)
                        (ctx errorResponse) (Reject (error errorResponse))))))"

definition getCheckReplies_prelude :: "request_options \<Rightarrow> 'c event list" where
  "getCheckReplies_prelude options =
     [Log Info (Text ''getCheckReplies being called''),
      Log Info (Text ''Preparing Query URL for getCheckReplies''),
      Log Info (Text ''Preparing headers for getCheckReplies''),
      Log Debug (RawRequest ''getCheckReplies'' options),
      Log Info (Text ''Sending request for getCheckReplies...''),
      Send options]"

definition getCheckReplies ::
  "'c collaborators \<Rightarrow> configuration \<Rightarrow> 'c jsarg \<Rightarrow> 'c outcome" where
  "getCheckReplies env cfg callback =
     (let cb = select_callback callback;
          options = getCheckReplies_options cfg;
          (err, resp, context) = request env options;
          (handled, fin) = getCheckReplies_handler env cb err resp context;
          es = getCheckReplies_prelude options @ handled
      in \<lparr> trace = es, promise = promise_of es, finished = fin, config_after = cfg \<rparr>)"

section \<open>Request objects without null fields\<close>

text \<open>No field of the value, at any depth, is \<open>null\<close> or \<open>undefined\<close>.\<close>

fun no_null_fields :: "jsvalue \<Rightarrow> bool"
  and no_null_in_fields :: "(string \<times> jsvalue) list \<Rightarrow> bool"
  and no_null_in_elements :: "jsvalue list \<Rightarrow> bool" where
  "no_null_fields (JObj kvs) = no_null_in_fields kvs"
| "no_null_fields (JArr vs) = no_null_in_elements vs"
| "no_null_fields JUndefined = True"
| "no_null_fields JNull = True"
| "no_null_fields (JBool b) = True"
| "no_null_fields (JNum n) = True"
| "no_null_fields (JStr s) = True"
| "no_null_in_fields [] = True"
| "no_null_in_fields (kv # kvs) =
     (\<not> nullish (snd kv) \<and> no_null_fields (snd kv) \<and> no_null_in_fields kvs)"
| "no_null_in_elements [] = True"
| "no_null_in_elements (v # vs) = (no_null_fields v \<and> no_null_in_elements vs)"

text \<open>The request of the confirm operation: \<open>{ reply_ids: [...] }\<close>.\<close>

definition confirm_request :: "string list \<Rightarrow> jsvalue" where
  "confirm_request ids = JObj [(''reply_ids'', JArr (map JStr ids))]"

section \<open>A sample environment\<close>

text \<open>
  Concrete collaborators, to run the model on concrete inputs. \<open>sample_parse\<close>
  stands for \<open>JSON.parse\<close> on the bodies used below: it reads the texts
  \<open>{}\<close>, \<open>[]\<close> and \<open>null\<close> and rejects the empty string and an HTML page, as
  \<open>JSON.parse\<close> does. \<open>sample_serialize\<close> writes strings without escapes. The
  sample mapper accepts objects only, and the sample \<open>validateResponse\<close> builds the
  error object from the operation's name. The context is a string. Of the two sample
  callbacks one returns and one throws, whatever it is given.
\<close>

function decimal :: "nat \<Rightarrow> string" where
  "decimal n =
     (if n < 10 then [char_of (48 + n)] else decimal (n div 10) @ [char_of (48 + n mod 10)])"
  by pat_completeness auto
termination
  by (relation "measure id") auto

definition sample_parse :: "string \<Rightarrow> jsvalue option" where
  "sample_parse s =
     (if s = ''{}'' then Some (JObj [])
      else if s = ''[]'' then Some (JArr [])
      else if s = ''null'' then Some JNull
      else None)"

fun sample_serialize :: "jsvalue \<Rightarrow> string"
  and sample_serialize_fields :: "(string \<times> jsvalue) list \<Rightarrow> string"
  and sample_serialize_elements :: "jsvalue list \<Rightarrow> string" where
  "sample_serialize (JObj kvs) = ''{'' @ sample_serialize_fields kvs @ ''}''"
| "sample_serialize (JArr vs) = ''['' @ sample_serialize_elements vs @ '']''"
| "sample_serialize JUndefined = ''undefined''"
| "sample_serialize JNull = ''null''"
| "sample_serialize (JBool b) = (if b then ''true'' else ''false'')"
| "sample_serialize (JNum n) = (if n < 0 then ''-'' @ decimal (nat (- n)) else decimal (nat n))"
| "sample_serialize (JStr s) = [CHR 0x22] @ s @ [CHR 0x22]"
| "sample_serialize_fields [] = []"
| "sample_serialize_fields (kv # kvs) =
     [CHR 0x22] @ fst kv @ [CHR 0x22] @ '':'' @ sample_serialize (snd kv) @
     (if kvs = [] then [] else '','' @ sample_serialize_fields kvs)"
| "sample_serialize_elements [] = []"
| "sample_serialize_elements (v # vs) =
     sample_serialize v @ (if vs = [] then [] else '','' @ sample_serialize_elements vs)"

definition sample_validateResponse :: "string \<Rightarrow> string \<Rightarrow> string error_response" where
  "sample_validateResponse context name =
     \<lparr> error = JObj [(''errorMessage'', JStr ''HTTP Response Not OK''),
                      (''operation'', JStr name)],
       response = JNull,
       ctx = context \<rparr>"

definition sample_mapObject :: "jsvalue \<Rightarrow> string \<Rightarrow> jsvalue option" where
  "sample_mapObject v name = (case v of JObj kvs \<Rightarrow> Some (JObj kvs) | _ \<Rightarrow> None)"

definition sample_env :: "jsvalue \<times> http_response option \<times> string \<Rightarrow> string collaborators" where
  "sample_env reply =
     \<lparr> jsonSerialize = sample_serialize,
       JSON_parse = sample_parse,
       validateResponse = sample_validateResponse,
       mapObject = sample_mapObject,
       request = (\<lambda>options. reply) \<rparr>"

definition sample_configuration :: configuration where
  "sample_configuration =
     \<lparr> BASEURI = ''https://api.messagemedia.com'',
       basicAuthUserName = ''key'',
       basicAuthPassword = ''secret'' \<rparr>"

definition returning :: "string js_function" where
  "returning e d c = Returned"

definition throwing :: "string js_function" where
  "throwing e d c = Threw (Thrown (JStr ''callback failed''))"

section \<open>The events of a call\<close>

text \<open>
  The events before the transport's reply hold no callback and no settlement, so the
  promise a call returns is settled by the handler's events alone. The two statements
  at the end of a branch give the callback and, when the callback returns, the
  settlement.
\<close>

lemma promise_of_confirm_prelude:
  "promise_of (createConfirmRepliesAsReceived_prelude options @ es) = promise_of es"
  by (simp add: promise_of_def createConfirmRepliesAsReceived_prelude_def)

lemma promise_of_check_prelude:
  "promise_of (getCheckReplies_prelude options @ es) = promise_of es"
  by (simp add: promise_of_def getCheckReplies_prelude_def)

lemma confirm_call:
  "request env (createConfirmRepliesAsReceived_options env cfg (cleanObject b)) = (err, resp, context) \<Longrightarrow>
   createConfirmRepliesAsReceived env cfg b callback =
     (cleanObject b,
      \<lparr> trace = createConfirmRepliesAsReceived_prelude (createConfirmRepliesAsReceived_options env cfg (cleanObject b)) @
                 fst (createConfirmRepliesAsReceived_handler env (select_callback callback) err resp context),
        promise = promise_of (fst (createConfirmRepliesAsReceived_handler env (select_callback callback) err resp context)),
        finished = snd (createConfirmRepliesAsReceived_handler env (select_callback callback) err resp context),
        config_after = cfg \<rparr>)"
  by (simp add: createConfirmRepliesAsReceived_def Let_def promise_of_confirm_prelude split: prod.splits)

lemma check_call:
  "request env (getCheckReplies_options cfg) = (err, resp, context) \<Longrightarrow>
   getCheckReplies env cfg callback =
      \<lparr> trace = getCheckReplies_prelude (getCheckReplies_options cfg) @
                 fst (getCheckReplies_handler env (select_callback callback) err resp context),
        promise = promise_of (fst (getCheckReplies_handler env (select_callback callback) err resp context)),
        finished = snd (getCheckReplies_handler env (select_callback callback) err resp context),
        config_after = cfg \<rparr>"
  by (simp add: getCheckReplies_def Let_def promise_of_check_prelude split: prod.splits)

lemma steps_append: "steps (xs @ ys) = steps xs @ steps ys"
  by (induction xs rule: steps.induct) simp_all

lemma callees_append: "callees (xs @ ys) = callees xs @ callees ys"
  by (induction xs rule: callees.induct) simp_all

lemma sent_append: "sent (xs @ ys) = sent xs @ sent ys"
  by (induction xs rule: sent.induct) simp_all


lemma settlements_append: "settlements (xs @ ys) = settlements xs + settlements ys"
  by (simp add: settlements_def)

lemma confirm_prelude_quiet:
  "steps (createConfirmRepliesAsReceived_prelude options) = []"
  "callees (createConfirmRepliesAsReceived_prelude options) = []"
  "settlements (createConfirmRepliesAsReceived_prelude options) = 0"
  "sent (createConfirmRepliesAsReceived_prelude options) = [options]"
  "effects (createConfirmRepliesAsReceived_prelude options) = [Send options]"
  by (simp_all add: createConfirmRepliesAsReceived_prelude_def settlements_def)

lemma check_prelude_quiet:
  "steps (getCheckReplies_prelude options) = []"
  "callees (getCheckReplies_prelude options) = []"
  "settlements (getCheckReplies_prelude options) = 0"
  "sent (getCheckReplies_prelude options) = [options]"
  "effects (getCheckReplies_prelude options) = [Send options]"
  by (simp_all add: getCheckReplies_prelude_def settlements_def)

lemma settlements_Nil: "settlements [] = 0"
  by (simp add: settlements_def)

lemma settlements_Cons: "settlements (e # es) = (if is_settle e then 1 else 0) + settlements es"
  by (simp add: settlements_def)


lemma select_callback_cases:
  "select_callback callback = (case callback of Function f \<Rightarrow> Supplied f | NotFunction v \<Rightarrow> Placeholder)"
  by (simp add: select_callback_def)

lemma callback_then_Returned:
  "invoke cb e d c = Returned \<Longrightarrow> callback_then cb e d c s = ([Call cb e d c, s], Returned)"
  by (simp add: callback_then_def)

lemma callback_then_Threw:
  "invoke cb e d c = Threw x \<Longrightarrow> callback_then cb e d c s = ([Call cb e d c], Threw x)"
  by (simp add: callback_then_def)

lemma callback_then_events:
  "fst (callback_then cb e d c s) =
     Call cb e d c # (case invoke cb e d c of Returned \<Rightarrow> [s] | Threw x \<Rightarrow> [])"
  "snd (callback_then cb e d c s) = invoke cb e d c"
  by (simp_all add: callback_then_def split: completion.splits)

lemma after_events:
  "fst (after es rest) = es @ fst rest"
  "snd (after es rest) = snd rest"
  by (simp_all add: after_def)

lemma confirm_handler_steps:
  "steps (fst (createConfirmRepliesAsReceived_handler env cb err resp c)) \<in>
     {[], [CallbackStep], [CallbackStep, FulfillStep], [CallbackStep, RejectStep]} \<and>
   (steps (fst (createConfirmRepliesAsReceived_handler env cb err resp c)) \<in>
      {[CallbackStep, FulfillStep], [CallbackStep, RejectStep]}) =
     (snd (createConfirmRepliesAsReceived_handler env cb err resp c) = Returned)"
  by (simp add: createConfirmRepliesAsReceived_handler_def Let_def after_def callback_then_def
      split: option.splits completion.splits)

lemma check_handler_steps:
  "steps (fst (getCheckReplies_handler env cb err resp c)) \<in>
     {[], [CallbackStep], [CallbackStep, FulfillStep], [CallbackStep, RejectStep]} \<and>
   (steps (fst (getCheckReplies_handler env cb err resp c)) \<in>
      {[CallbackStep, FulfillStep], [CallbackStep, RejectStep]}) =
     (snd (getCheckReplies_handler env cb err resp c) = Returned)"
  by (simp add: getCheckReplies_handler_def Let_def after_def callback_then_def
      split: option.splits completion.splits)



lemma confirm_handler_sends_nothing:
  "sent (fst (createConfirmRepliesAsReceived_handler env cb err resp c)) = []"
  by (simp add: createConfirmRepliesAsReceived_handler_def Let_def after_def callback_then_def
      split: option.splits completion.splits)

lemma check_handler_sends_nothing:
  "sent (fst (getCheckReplies_handler env cb err resp c)) = []"
  by (simp add: getCheckReplies_handler_def Let_def after_def callback_then_def
      split: option.splits completion.splits)

section \<open>The response classifier\<close>

text \<open>
  C2, as the code has it. When the transport reports no error, the status code of the
  response is in [200, 206] and \<open>JSON.parse\<close> accepts the body, the confirm
  operation invokes the callback (the caller's function, or the placeholder when the
  caller passed none) with (null, the parsed value, the context as it came) and then,
  if the callback returned, fulfils the promise with the parsed value as it is; if the
  callback threw, the handler ends there and the promise stays pending. The
  check-replies operation hands the parsed value to the object mapper for
  \<open>CheckRepliesResponse\<close> first and, when the mapper accepts it, delivers the mapped
  value in the same way.
\<close>

theorem success_status_resolves:
  fixes env :: "'c collaborators" and callback :: "'c jsarg"
  defines "cb \<equiv> (case callback of Function f \<Rightarrow> Supplied f | NotFunction v \<Rightarrow> Placeholder)"
    and "callback_result \<equiv> (\<lambda>e d x. case callback of Function f \<Rightarrow> f e d x | NotFunction v \<Rightarrow> Returned)"
  assumes "\<not> truthy err" and "200 \<le> statusCode r" and "statusCode r \<le> 206"
    and "JSON_parse env (responseBody r) = Some parsed"
  shows
    "(request env (createConfirmRepliesAsReceived_options env cfg (cleanObject b)) = (err, Some r, c) \<longrightarrow>
        createConfirmRepliesAsReceived env cfg b callback =
          (cleanObject b,
           \<lparr> trace =
               createConfirmRepliesAsReceived_prelude
                 (createConfirmRepliesAsReceived_options env cfg (cleanObject b)) @
               [Log Debug (RawResponse ''createConfirmRepliesAsReceived'' r),
                Call cb JNull parsed c] @
               (case callback_result JNull parsed c of
                  Returned \<Rightarrow> [Fulfill parsed] | Threw x \<Rightarrow> []),
             promise =
               (case callback_result JNull parsed c of
                  Returned \<Rightarrow> Fulfilled parsed | Threw x \<Rightarrow> Pending),
             finished = callback_result JNull parsed c,
             config_after = cfg \<rparr>)) \<and>
     (request env (getCheckReplies_options cfg) = (err, Some r, c) \<and>
      mapObject env parsed ''CheckRepliesResponse'' = Some mapped \<longrightarrow>
        getCheckReplies env cfg callback =
          \<lparr> trace =
              getCheckReplies_prelude (getCheckReplies_options cfg) @
              [Log Debug (RawResponse ''getCheckReplies'' r),
               Log Info (Text ''Deserializing response for getCheckReplies''),
               Call cb JNull mapped c] @
              (case callback_result JNull mapped c of
                 Returned \<Rightarrow> [Fulfill mapped] | Threw x \<Rightarrow> []),
            promise =
              (case callback_result JNull mapped c of
                 Returned \<Rightarrow> Fulfilled mapped | Threw x \<Rightarrow> Pending),
            finished = callback_result JNull mapped c,
            config_after = cfg \<rparr>)"
  (is "(?A \<longrightarrow> ?B) \<and> (?C \<longrightarrow> ?D)")
proof -
  have callback_result: "invoke cb e d x = callback_result e d x" for e d x
    by (cases callback) (simp_all add: cb_def callback_result_def)
  show ?thesis
  proof (rule conjI)
  show "?A \<longrightarrow> ?B"
  proof (rule impI)
    assume a: ?A
    have "createConfirmRepliesAsReceived_handler env cb err (Some r) c =
        after [Log Debug (RawResponse ''createConfirmRepliesAsReceived'' r)]
          (callback_then cb JNull parsed c (Fulfill parsed))"
      using assms(3-6) by (simp add: createConfirmRepliesAsReceived_handler_def)
    then show ?B
      by (simp add: confirm_call[OF a] select_callback_cases cb_def[symmetric] after_events
          callback_then_events callback_result promise_of_def split: completion.splits)
  qed
next
  show "?C \<longrightarrow> ?D"
  proof (rule impI)
    assume "?C"
    then have q: "request env (getCheckReplies_options cfg) = (err, Some r, c)"
      and m: "mapObject env parsed ''CheckRepliesResponse'' = Some mapped" by simp_all
    have "getCheckReplies_handler env cb err (Some r) c =
        after [Log Debug (RawResponse ''getCheckReplies'' r),
               Log Info (Text ''Deserializing response for getCheckReplies'')]
          (callback_then cb JNull mapped c (Fulfill mapped))"
      using assms(3-6) m by (simp add: getCheckReplies_handler_def)
    then show ?D
      by (simp add: check_call[OF q] select_callback_cases cb_def[symmetric] after_events
          callback_then_events callback_result promise_of_def split: completion.splits)
  qed
qed
qed

text \<open>
  C2 as stated fails on a response with a success status whose body is not JSON (the
  callback is not invoked and the promise is not resolved) and with a callback that
  throws (the promise is not resolved).
\<close>

theorem success_status_resolves_counterexample:
  "promise (getCheckReplies
      (sample_env (JNull, Some \<lparr>statusCode = 200, responseBody = ''<html>''\<rparr>, ''context''))
      sample_configuration (Function returning)) = Pending \<and>
   callees (trace (getCheckReplies
      (sample_env (JNull, Some \<lparr>statusCode = 200, responseBody = ''<html>''\<rparr>, ''context''))
      sample_configuration (Function returning))) = [] \<and>
   promise (getCheckReplies
      (sample_env (JNull, Some \<lparr>statusCode = 200, responseBody = ''[]''\<rparr>, ''context''))
      sample_configuration (Function returning)) = Pending \<and>
   promise (snd (createConfirmRepliesAsReceived
      (sample_env (JNull, Some \<lparr>statusCode = 200, responseBody = ''{}''\<rparr>, ''context''))
      sample_configuration (confirm_request [''a'']) (Function throwing))) = Pending"
  by (simp add: getCheckReplies_def getCheckReplies_handler_def getCheckReplies_prelude_def
      createConfirmRepliesAsReceived_def createConfirmRepliesAsReceived_handler_def
      createConfirmRepliesAsReceived_prelude_def sample_env_def sample_parse_def sample_mapObject_def Let_def
      select_callback_def callback_then_def after_def throwing_def promise_of_def)

theorem success_status_resolves_witness:
  "promise (snd (createConfirmRepliesAsReceived
      (sample_env (JNull, Some \<lparr>statusCode = 200, responseBody = ''{}''\<rparr>, ''context''))
      sample_configuration (confirm_request [''a'']) (Function returning))) =
     Fulfilled (JObj []) \<and>
   promise (getCheckReplies
      (sample_env (JNull, Some \<lparr>statusCode = 206, responseBody = ''{}''\<rparr>, ''context''))
      sample_configuration (Function returning)) =
     Fulfilled (JObj [])"
  using success_status_resolves [where err = JNull
      and r = "\<lparr>statusCode = 200, responseBody = ''{}''\<rparr>"
      and env = "sample_env (JNull, Some \<lparr>statusCode = 200, responseBody = ''{}''\<rparr>, ''context'')"
      and parsed = "JObj []" and cfg = sample_configuration and b = "confirm_request [''a'']"
      and c = "''context''" and callback = "Function returning"]
    success_status_resolves [where err = JNull
      and r = "\<lparr>statusCode = 206, responseBody = ''{}''\<rparr>"
      and env = "sample_env (JNull, Some \<lparr>statusCode = 206, responseBody = ''{}''\<rparr>, ''context'')"
      and parsed = "JObj []" and mapped = "JObj []" and cfg = sample_configuration
      and c = "''context''" and callback = "Function returning"]
  by (simp add: sample_env_def sample_parse_def sample_mapObject_def returning_def)

text \<open>
  C3, as the code has it. A response with status code 400 (and no transport error)
  makes the confirm operation build the error object with an empty \<open>errorMessage\<close>,
  \<open>errorCode\<close> 400 and the unparsed body as \<open>errorResponse\<close>; that object is the
  callback's error argument and, if the callback returned, the value the promise is
  rejected with; if the callback threw, the promise stays pending. \<open>JSON.parse\<close>
  plays no part: the call is the same whatever \<open>JSON.parse\<close> would do. The
  check-replies operation has no branch for 400: the response goes through
  \<open>validateResponse\<close>, like every other status outside [200, 206].
\<close>

theorem client_error_400:
  fixes env :: "'c collaborators" and callback :: "'c jsarg"
  defines "cb \<equiv> (case callback of Function f \<Rightarrow> Supplied f | NotFunction v \<Rightarrow> Placeholder)"
    and "callback_result \<equiv> (\<lambda>e d x. case callback of Function f \<Rightarrow> f e d x | NotFunction v \<Rightarrow> Returned)"
    and "clientError \<equiv> (\<lambda>r. JObj [(''errorMessage'', JStr []),
                                    (''errorCode'', JNum 400),
                                    (''errorResponse'', JStr (responseBody r))])"
    and "fallback \<equiv> (\<lambda>c. validateResponse env c ''getCheckReplies'')"
  assumes "\<not> truthy err" and "statusCode r = 400"
  shows
    "(request env (createConfirmRepliesAsReceived_options env cfg (cleanObject b)) = (err, Some r, c) \<longrightarrow>
        createConfirmRepliesAsReceived env cfg b callback =
          (cleanObject b,
           \<lparr> trace =
               createConfirmRepliesAsReceived_prelude
                 (createConfirmRepliesAsReceived_options env cfg (cleanObject b)) @
               [PrintErrorLog 400 ''createConfirmRepliesAsReceived'',
                Call cb (clientError r) JNull c] @
               (case callback_result (clientError r) JNull c of
                  Returned \<Rightarrow> [Reject (clientError r)] | Threw x \<Rightarrow> []),
             promise =
               (case callback_result (clientError r) JNull c of
                  Returned \<Rightarrow> Rejected (clientError r) | Threw x \<Rightarrow> Pending),
             finished = callback_result (clientError r) JNull c,
             config_after = cfg \<rparr>) \<and>
        createConfirmRepliesAsReceived (env\<lparr>JSON_parse := parse\<rparr>) cfg b callback =
        createConfirmRepliesAsReceived env cfg b callback) \<and>
     (request env (getCheckReplies_options cfg) = (err, Some r, c) \<longrightarrow>
        getCheckReplies env cfg callback =
          \<lparr> trace =
              getCheckReplies_prelude (getCheckReplies_options cfg) @
              [Log Info (Text ''Validating response for getCheckReplies ''),
               Call cb (error (fallback c)) (response (fallback c)) (ctx (fallback c))] @
              (case callback_result (error (fallback c)) (response (fallback c)) (ctx (fallback c)) of
                 Returned \<Rightarrow> [Reject (error (fallback c))] | Threw x \<Rightarrow> []),
            promise =
              (case callback_result (error (fallback c)) (response (fallback c)) (ctx (fallback c)) of
                 Returned \<Rightarrow> Rejected (error (fallback c)) | Threw x \<Rightarrow> Pending),
            finished = callback_result (error (fallback c)) (response (fallback c)) (ctx (fallback c)),
            config_after = cfg \<rparr>)"
  (is "(?A \<longrightarrow> ?B) \<and> (?C \<longrightarrow> ?D)")
proof -
  have callback_result: "invoke cb e d x = callback_result e d x" for e d x
    by (cases callback) (simp_all add: cb_def callback_result_def)
  show ?thesis
  proof (rule conjI)
  show "?A \<longrightarrow> ?B"
  proof (rule impI)
    assume a: ?A
    have a': "request (env\<lparr>JSON_parse := parse\<rparr>)
          (createConfirmRepliesAsReceived_options (env\<lparr>JSON_parse := parse\<rparr>) cfg (cleanObject b)) =
        (err, Some r, c)"
      using a by (simp add: createConfirmRepliesAsReceived_options_def)
    have same: "createConfirmRepliesAsReceived_handler (env\<lparr>JSON_parse := parse\<rparr>) cb err (Some r) c =
                createConfirmRepliesAsReceived_handler env cb err (Some r) c"
      using assms(5,6) by (simp add: createConfirmRepliesAsReceived_handler_def)
    have "createConfirmRepliesAsReceived (env\<lparr>JSON_parse := parse\<rparr>) cfg b callback =
          createConfirmRepliesAsReceived env cfg b callback"
      by (simp add: confirm_call[OF a'] confirm_call[OF a] same select_callback_cases
          cb_def[symmetric] createConfirmRepliesAsReceived_options_def)
    moreover have "createConfirmRepliesAsReceived_handler env cb err (Some r) c =
        after [PrintErrorLog 400 ''createConfirmRepliesAsReceived'']
          (callback_then cb (clientError r) JNull c (Reject (clientError r)))"
      using assms(5,6) by (simp add: Let_def createConfirmRepliesAsReceived_handler_def clientError_def)
    ultimately show ?B
      by (simp add: confirm_call[OF a] select_callback_cases cb_def[symmetric] after_events
          callback_then_events callback_result promise_of_def split: completion.splits)
  qed
next
  show "?C \<longrightarrow> ?D"
  proof (rule impI)
    assume q: ?C
    have "getCheckReplies_handler env cb err (Some r) c =
        after [Log Info (Text ''Validating response for getCheckReplies '')]
          (callback_then cb (error (fallback c)) (response (fallback c)) (ctx (fallback c))
             (Reject (error (fallback c))))"
      using assms(5,6) by (simp add: Let_def getCheckReplies_handler_def fallback_def)
    then show ?D
      by (simp add: check_call[OF q] select_callback_cases cb_def[symmetric] after_events
          callback_then_events callback_result promise_of_def split: completion.splits)
  qed
qed
qed

text \<open>
  C3 as stated fails with a callback that throws: it receives the error object, and
  the promise is never rejected with it.
\<close>

theorem client_error_400_counterexample:
  "callbacks (trace (snd (createConfirmRepliesAsReceived
      (sample_env (JNull, Some \<lparr>statusCode = 400, responseBody = ''<html>''\<rparr>, ''context''))
      sample_configuration (confirm_request [''a'']) (Function throwing)))) = 1 \<and>
   promise (snd (createConfirmRepliesAsReceived
      (sample_env (JNull, Some \<lparr>statusCode = 400, responseBody = ''<html>''\<rparr>, ''context''))
      sample_configuration (confirm_request [''a'']) (Function throwing))) = Pending"
  by (simp add: createConfirmRepliesAsReceived_def createConfirmRepliesAsReceived_handler_def
      createConfirmRepliesAsReceived_prelude_def sample_env_def Let_def callbacks_def
      select_callback_def callback_then_def after_def throwing_def promise_of_def)

theorem client_error_400_witness:
  "promise (snd (createConfirmRepliesAsReceived
      (sample_env (JNull, Some \<lparr>statusCode = 400, responseBody = ''<html>''\<rparr>, ''context''))
      sample_configuration (confirm_request [''a'']) (Function returning))) =
     Rejected (JObj [(''errorMessage'', JStr []), (''errorCode'', JNum 400),
                     (''errorResponse'', JStr ''<html>'')]) \<and>
   promise (getCheckReplies
      (sample_env (JNull, Some \<lparr>statusCode = 400, responseBody = ''<html>''\<rparr>, ''context''))
      sample_configuration (Function returning)) =
     Rejected (error (sample_validateResponse ''context'' ''getCheckReplies''))"
  using client_error_400 [where err = JNull
      and r = "\<lparr>statusCode = 400, responseBody = ''<html>''\<rparr>"
      and env = "sample_env (JNull, Some \<lparr>statusCode = 400, responseBody = ''<html>''\<rparr>, ''context'')"
      and cfg = sample_configuration and b = "confirm_request [''a'']" and c = "''context''"
      and callback = "Function returning"]
  by (simp add: sample_env_def returning_def)

text \<open>
  C4, as the code has it. When the transport reports an error (a truthy \<open>_error\<close>),
  whatever the response is and even when there is none, both operations log the error,
  take the error object of \<open>validateResponse\<close>, invoke the callback with it and then,
  if the callback returned, reject the promise with it; if the callback threw, the
  promise stays pending. Nothing is fulfilled and no callback gets a null error.
\<close>

theorem transport_failure_rejects:
  fixes env :: "'c collaborators" and callback :: "'c jsarg"
  defines "cb \<equiv> (case callback of Function f \<Rightarrow> Supplied f | NotFunction v \<Rightarrow> Placeholder)"
    and "callback_result \<equiv> (\<lambda>e d x. case callback of Function f \<Rightarrow> f e d x | NotFunction v \<Rightarrow> Returned)"
    and "confirmFallback \<equiv> (\<lambda>c. validateResponse env c ''createConfirmRepliesAsReceived'')"
    and "checkFallback \<equiv> (\<lambda>c. validateResponse env c ''getCheckReplies'')"
  assumes "truthy err"
  shows
    "(request env (createConfirmRepliesAsReceived_options env cfg (cleanObject b)) = (err, resp, c) \<longrightarrow>
        createConfirmRepliesAsReceived env cfg b callback =
          (cleanObject b,
           \<lparr> trace =
               createConfirmRepliesAsReceived_prelude
                 (createConfirmRepliesAsReceived_options env cfg (cleanObject b)) @
               [Log Error (Cause err),
                Call cb (error (confirmFallback c)) (response (confirmFallback c))
                  (ctx (confirmFallback c))] @
               (case callback_result (error (confirmFallback c)) (response (confirmFallback c))
                       (ctx (confirmFallback c)) of
                  Returned \<Rightarrow> [Reject (error (confirmFallback c))] | Threw x \<Rightarrow> []),
             promise =
               (case callback_result (error (confirmFallback c)) (response (confirmFallback c))
                       (ctx (confirmFallback c)) of
                  Returned \<Rightarrow> Rejected (error (confirmFallback c)) | Threw x \<Rightarrow> Pending),
             finished =
               callback_result (error (confirmFallback c)) (response (confirmFallback c))
                 (ctx (confirmFallback c)),
             config_after = cfg \<rparr>)) \<and>
     (request env (getCheckReplies_options cfg) = (err, resp, c) \<longrightarrow>
        getCheckReplies env cfg callback =
          \<lparr> trace =
              getCheckReplies_prelude (getCheckReplies_options cfg) @
              [Log Error (Cause err),
               Call cb (error (checkFallback c)) (response (checkFallback c))
                 (ctx (checkFallback c))] @
              (case callback_result (error (checkFallback c)) (response (checkFallback c))
                      (ctx (checkFallback c)) of
                 Returned \<Rightarrow> [Reject (error (checkFallback c))] | Threw x \<Rightarrow> []),
            promise =
              (case callback_result (error (checkFallback c)) (response (checkFallback c))
                      (ctx (checkFallback c)) of
                 Returned \<Rightarrow> Rejected (error (checkFallback c)) | Threw x \<Rightarrow> Pending),
            finished =
              callback_result (error (checkFallback c)) (response (checkFallback c))
                (ctx (checkFallback c)),
            config_after = cfg \<rparr>)"
  (is "(?A \<longrightarrow> ?B) \<and> (?C \<longrightarrow> ?D)")
proof -
  have callback_result: "invoke cb e d x = callback_result e d x" for e d x
    by (cases callback) (simp_all add: cb_def callback_result_def)
  show ?thesis
  proof (rule conjI)
  show "?A \<longrightarrow> ?B"
  proof (rule impI)
    assume a: ?A
    have "createConfirmRepliesAsReceived_handler env cb err resp c =
        after [Log Error (Cause err)]
          (callback_then cb (error (confirmFallback c)) (response (confirmFallback c))
             (ctx (confirmFallback c)) (Reject (error (confirmFallback c))))"
      using assms(5) by (simp add: Let_def createConfirmRepliesAsReceived_handler_def confirmFallback_def)
    then show ?B
      by (simp add: confirm_call[OF a] select_callback_cases cb_def[symmetric] after_events
          callback_then_events callback_result promise_of_def split: completion.splits)
  qed
next
  show "?C \<longrightarrow> ?D"
  proof (rule impI)
    assume q: ?C
    have "getCheckReplies_handler env cb err resp c =
        after [Log Error (Cause err)]
          (callback_then cb (error (checkFallback c)) (response (checkFallback c))
             (ctx (checkFallback c)) (Reject (error (checkFallback c))))"
      using assms(5) by (simp add: Let_def getCheckReplies_handler_def checkFallback_def)
    then show ?D
      by (simp add: check_call[OF q] select_callback_cases cb_def[symmetric] after_events
          callback_then_events callback_result promise_of_def split: completion.splits)
  qed
qed
qed

text \<open>
  C4 as stated fails with a callback that throws: the promise is not rejected.
\<close>

theorem transport_failure_rejects_counterexample:
  "promise (snd (createConfirmRepliesAsReceived
      (sample_env (JStr ''ECONNREFUSED'', None, ''context''))
      sample_configuration (confirm_request [''a'']) (Function throwing))) = Pending \<and>
   settlements (trace (getCheckReplies
      (sample_env (JStr ''ECONNREFUSED'', None, ''context''))
      sample_configuration (Function throwing))) = 0"
  by (simp add: createConfirmRepliesAsReceived_def createConfirmRepliesAsReceived_handler_def
      createConfirmRepliesAsReceived_prelude_def getCheckReplies_def getCheckReplies_handler_def
      getCheckReplies_prelude_def sample_env_def Let_def settlements_def
      select_callback_def callback_then_def after_def throwing_def promise_of_def)

theorem transport_failure_rejects_witness:
  "promise (snd (createConfirmRepliesAsReceived
      (sample_env (JStr ''ECONNREFUSED'', None, ''context''))
      sample_configuration (confirm_request [''a'']) (Function returning))) =
     Rejected (error (sample_validateResponse ''context'' ''createConfirmRepliesAsReceived'')) \<and>
   promise (getCheckReplies
      (sample_env (JStr ''ECONNREFUSED'', None, ''context''))
      sample_configuration (Function returning)) =
     Rejected (error (sample_validateResponse ''context'' ''getCheckReplies''))"
  using transport_failure_rejects [where err = "JStr ''ECONNREFUSED''"
      and env = "sample_env (JStr ''ECONNREFUSED'', None, ''context'')"
      and cfg = sample_configuration and b = "confirm_request [''a'']" and c = "''context''"
      and resp = None and callback = "Function returning"]
  by (simp add: sample_env_def returning_def)

text \<open>
  C5. Nothing in the handlers catches an exception. When the status code is in
  [200, 206] and \<open>JSON.parse\<close> rejects the body, the handler of either operation ends
  with the SyntaxError after the debug line: the callback is not invoked and neither
  \<open>_fulfill\<close> nor \<open>_reject\<close> is called. The same holds for check-replies when the
  body parses and the object mapper throws.
\<close>

theorem malformed_success_body_uncaught:
  fixes env :: "'c collaborators" and callback :: "'c jsarg"
  assumes "\<not> truthy err" and "200 \<le> statusCode r" and "statusCode r \<le> 206"
  shows
    "(JSON_parse env (responseBody r) = None \<and>
      request env (createConfirmRepliesAsReceived_options env cfg (cleanObject b)) = (err, Some r, c) \<longrightarrow>
        trace (snd (createConfirmRepliesAsReceived env cfg b callback)) =
          createConfirmRepliesAsReceived_prelude
            (createConfirmRepliesAsReceived_options env cfg (cleanObject b)) @
          [Log Debug (RawResponse ''createConfirmRepliesAsReceived'' r)] \<and>
        finished (snd (createConfirmRepliesAsReceived env cfg b callback)) = Threw SyntaxError \<and>
        callbacks (trace (snd (createConfirmRepliesAsReceived env cfg b callback))) = 0 \<and>
        settlements (trace (snd (createConfirmRepliesAsReceived env cfg b callback))) = 0) \<and>
     (JSON_parse env (responseBody r) = None \<and>
      request env (getCheckReplies_options cfg) = (err, Some r, c) \<longrightarrow>
        trace (getCheckReplies env cfg callback) =
          getCheckReplies_prelude (getCheckReplies_options cfg) @
          [Log Debug (RawResponse ''getCheckReplies'' r)] \<and>
        finished (getCheckReplies env cfg callback) = Threw SyntaxError \<and>
        callbacks (trace (getCheckReplies env cfg callback)) = 0 \<and>
        settlements (trace (getCheckReplies env cfg callback)) = 0) \<and>
     (JSON_parse env (responseBody r) = Some parsed \<and>
      mapObject env parsed ''CheckRepliesResponse'' = None \<and>
      request env (getCheckReplies_options cfg) = (err, Some r, c) \<longrightarrow>
        trace (getCheckReplies env cfg callback) =
          getCheckReplies_prelude (getCheckReplies_options cfg) @
          [Log Debug (RawResponse ''getCheckReplies'' r),
           Log Info (Text ''Deserializing response for getCheckReplies'')] \<and>
        finished (getCheckReplies env cfg callback) = Threw MapperError \<and>
        callbacks (trace (getCheckReplies env cfg callback)) = 0 \<and>
        settlements (trace (getCheckReplies env cfg callback)) = 0)"
  (is "(?A1 \<longrightarrow> ?B1) \<and> (?A2 \<longrightarrow> ?B2) \<and> (?A3 \<longrightarrow> ?B3)")
proof -
  have 1: "?A1 \<longrightarrow> ?B1"
  proof
    assume a: ?A1
    then have q: "request env (createConfirmRepliesAsReceived_options env cfg (cleanObject b)) = (err, Some r, c)"
      by simp
    show ?B1
      using a assms
      by (simp add: confirm_call[OF q] createConfirmRepliesAsReceived_handler_def callbacks_def
          callees_append settlements_append confirm_prelude_quiet settlements_Nil settlements_Cons)
  qed
  have 2: "?A2 \<longrightarrow> ?B2"
  proof
    assume a: ?A2
    then have q: "request env (getCheckReplies_options cfg) = (err, Some r, c)"
      by simp
    show ?B2
      using a assms
      by (simp add: check_call[OF q] getCheckReplies_handler_def callbacks_def
          callees_append settlements_append check_prelude_quiet settlements_Nil settlements_Cons)
  qed
  have 3: "?A3 \<longrightarrow> ?B3"
  proof
    assume a: ?A3
    then have q: "request env (getCheckReplies_options cfg) = (err, Some r, c)"
      by simp
    show ?B3
      using a assms
      by (simp add: check_call[OF q] getCheckReplies_handler_def callbacks_def
          callees_append settlements_append check_prelude_quiet settlements_Nil settlements_Cons)
  qed
  from 1 2 3 show ?thesis by blast
qed

theorem malformed_success_body_uncaught_witness:
  "finished (snd (createConfirmRepliesAsReceived
      (sample_env (JNull, Some \<lparr>statusCode = 200, responseBody = ''<html>''\<rparr>, ''context''))
      sample_configuration (confirm_request [''a'']) (Function returning))) = Threw SyntaxError \<and>
   finished (getCheckReplies
      (sample_env (JNull, Some \<lparr>statusCode = 200, responseBody = ''<html>''\<rparr>, ''context''))
      sample_configuration (Function returning)) = Threw SyntaxError \<and>
   finished (getCheckReplies
      (sample_env (JNull, Some \<lparr>statusCode = 200, responseBody = ''[]''\<rparr>, ''context''))
      sample_configuration (Function returning)) = Threw MapperError"
  using malformed_success_body_uncaught [where err = JNull
      and r = "\<lparr>statusCode = 200, responseBody = ''<html>''\<rparr>"
      and env = "sample_env (JNull, Some \<lparr>statusCode = 200, responseBody = ''<html>''\<rparr>, ''context'')"
      and cfg = sample_configuration and b = "confirm_request [''a'']"
      and c = "''context''" and callback = "Function returning"]
    malformed_success_body_uncaught [where err = JNull
      and r = "\<lparr>statusCode = 200, responseBody = ''[]''\<rparr>"
      and env = "sample_env (JNull, Some \<lparr>statusCode = 200, responseBody = ''[]''\<rparr>, ''context'')"
      and cfg = sample_configuration and parsed = "JArr []"
      and c = "''context''" and callback = "Function returning"]
  by (simp add: sample_env_def sample_parse_def sample_mapObject_def)

section \<open>Callback and promise\<close>

text \<open>
  C10. In every call of either operation the callback comes before the settlement:
  the trace holds nothing of the two, or one invocation of the callback alone, or one
  invocation of the callback followed by one \<open>_fulfill\<close> or \<open>_reject\<close>; the last is
  the case exactly when the handler runs to its end.
\<close>

theorem callback_precedes_settlement:
  fixes env :: "'c collaborators" and callback :: "'c jsarg"
  shows
    "steps (trace (snd (createConfirmRepliesAsReceived env cfg b callback))) \<in>
       {[], [CallbackStep], [CallbackStep, FulfillStep], [CallbackStep, RejectStep]} \<and>
     (steps (trace (snd (createConfirmRepliesAsReceived env cfg b callback))) \<in>
        {[CallbackStep, FulfillStep], [CallbackStep, RejectStep]}) =
       (finished (snd (createConfirmRepliesAsReceived env cfg b callback)) = Returned) \<and>
     steps (trace (getCheckReplies env cfg callback)) \<in>
       {[], [CallbackStep], [CallbackStep, FulfillStep], [CallbackStep, RejectStep]} \<and>
     (steps (trace (getCheckReplies env cfg callback)) \<in>
        {[CallbackStep, FulfillStep], [CallbackStep, RejectStep]}) =
       (finished (getCheckReplies env cfg callback) = Returned)"
proof -
  obtain err resp c where
    q: "request env (createConfirmRepliesAsReceived_options env cfg (cleanObject b)) = (err, resp, c)"
    by (cases "request env (createConfirmRepliesAsReceived_options env cfg (cleanObject b))")
  obtain err' resp' c' where
    q': "request env (getCheckReplies_options cfg) = (err', resp', c')"
    by (cases "request env (getCheckReplies_options cfg)")
  show ?thesis
    using confirm_handler_steps[of env "select_callback callback" err resp c]
      check_handler_steps[of env "select_callback callback" err' resp' c']
    by (simp only: confirm_call[OF q] check_call[OF q'] steps_append confirm_prelude_quiet
        check_prelude_quiet snd_conv outcome.simps append_Nil)
qed




section \<open>The requests\<close>

text \<open>
  The strip-null-fields pass leaves a value without null fields as it is; a list of
  reply identifiers of any length is such a value. The handlers send nothing: the one
  request of a call is the one the operation builds.
\<close>

lemma cleanObject_unchanged:
  "no_null_fields v \<Longrightarrow> cleanObject v = v"
  "no_null_in_fields kvs \<Longrightarrow> cleanFields kvs = kvs"
  "no_null_in_elements vs \<Longrightarrow> cleanElements vs = vs"
  by (induction v and kvs and vs rule: cleanObject_cleanFields_cleanElements.induct) auto

lemma no_null_in_strings: "no_null_in_elements (map JStr ids)"
  by (induction ids) simp_all

lemma confirm_request_no_null: "no_null_fields (confirm_request ids)"
  by (simp add: confirm_request_def no_null_in_strings)

text \<open>
  C6. For every body, \<open>createConfirmRepliesAsReceived\<close> hands the transport exactly
  one request: a POST to the cleaned-up concatenation of the configured base URI and
  \<open>/v1/replies/confirmed\<close>, with the three headers \<open>accept\<close>, \<open>content-type\<close> and
  \<open>user-agent\<close> and no other, the user name and password of the configuration, and
  as body the JSON text of the request object after the strip-null-fields pass.
  Nothing is validated: the request is built and sent whatever the body is, and a
  list of reply identifiers is serialised as it is, whatever its length and whatever
  the identifiers look like.
\<close>

theorem confirm_request_descriptor:
  fixes env :: "'c collaborators" and callback :: "'c jsarg"
    and cfg :: configuration and b :: jsvalue
  defines "options \<equiv> createConfirmRepliesAsReceived_options env cfg (cleanObject b)"
  shows
    "sent (trace (snd (createConfirmRepliesAsReceived env cfg b callback))) = [options] \<and>
     httpMethod options = POST \<and>
     queryUrl options = cleanUrl (BASEURI cfg @ ''/v1/replies/confirmed'') \<and>
     headers options =
       [(''accept'', ''application/json''),
        (''content-type'', ''application/json; charset=utf-8''),
        (''user-agent'', ''messagemedia-messages-nodejs-sdk-1.0.0'')] \<and>
     username options = basicAuthUserName cfg \<and>
     password options = basicAuthPassword cfg \<and>
     body options = Some (jsonSerialize env (cleanObject b)) \<and>
     body (createConfirmRepliesAsReceived_options env cfg (cleanObject (confirm_request ids))) =
       Some (jsonSerialize env (confirm_request ids))"
proof -
  obtain err resp c where
    q: "request env (createConfirmRepliesAsReceived_options env cfg (cleanObject b)) = (err, resp, c)"
    by (cases "request env (createConfirmRepliesAsReceived_options env cfg (cleanObject b))")
  have "sent (trace (snd (createConfirmRepliesAsReceived env cfg b callback))) = [options]"
    by (simp add: confirm_call[OF q] sent_append confirm_prelude_quiet
        confirm_handler_sends_nothing options_def)
  moreover have "cleanObject (confirm_request ids) = confirm_request ids"
    by (rule cleanObject_unchanged) (rule confirm_request_no_null)
  ultimately show ?thesis
    by (simp add: options_def createConfirmRepliesAsReceived_options_def)
qed

text \<open>
  C7. \<open>getCheckReplies\<close> hands the transport exactly one request: a GET to the
  cleaned-up concatenation of the configured base URI and \<open>/v1/replies\<close>, with the
  two headers \<open>accept\<close> and \<open>user-agent\<close> and no other, no body, and the user name
  and password of the configuration.
\<close>

theorem check_request_descriptor:
  fixes env :: "'c collaborators" and callback :: "'c jsarg" and cfg :: configuration
  defines "options \<equiv> getCheckReplies_options cfg"
  shows
    "sent (trace (getCheckReplies env cfg callback)) = [options] \<and>
     httpMethod options = GET \<and>
     queryUrl options = cleanUrl (BASEURI cfg @ ''/v1/replies'') \<and>
     headers options =
       [(''accept'', ''application/json''),
        (''user-agent'', ''messagemedia-messages-nodejs-sdk-1.0.0'')] \<and>
     body options = None \<and>
     username options = basicAuthUserName cfg \<and>
     password options = basicAuthPassword cfg"
proof -
  obtain err resp c where
    q: "request env (getCheckReplies_options cfg) = (err, resp, c)"
    by (cases "request env (getCheckReplies_options cfg)")
  have "sent (trace (getCheckReplies env cfg callback)) = [options]"
    by (simp add: check_call[OF q] sent_append check_prelude_quiet
        check_handler_sends_nothing options_def)
  then show ?thesis
    by (simp add: options_def getCheckReplies_options_def)
qed

section \<open>URL normalisation\<close>

lemma collapse_Cons: "\<exists>t. collapse (a # s) = a # t"
  by (induction s arbitrary: a) auto

lemma collapse_idem: "collapse (collapse s) = collapse s"
proof (induction s rule: collapse.induct)
  case (3 a b cs)
  obtain t where t: "collapse (b # cs) = b # t"
    using collapse_Cons by blast
  show ?case
  proof (cases "a = CHR ''/'' \<and> b = CHR ''/''")
    case True
    with 3 show ?thesis by simp
  next
    case False
    with 3 t show ?thesis by auto
  qed
qed simp_all

lemma collapse_double_slash:
  "collapse (xs @ CHR ''/'' # CHR ''/'' # ys) = collapse (xs @ CHR ''/'' # ys)"
  by (induction xs rule: collapse.induct) auto

lemma collapse_stops: "s = [] \<or> \<not> P (hd s) \<Longrightarrow> collapse s = [] \<or> \<not> P (hd (collapse s))"
proof (cases s)
  case (Cons a t)
  assume "s = [] \<or> \<not> P (hd s)"
  moreover obtain t' where "collapse (a # t) = a # t'"
    using collapse_Cons by blast
  ultimately show ?thesis using Cons by simp
qed simp

lemma takeWhile_append_stop: "\<not> P y \<Longrightarrow> takeWhile P (xs @ y # ys) = takeWhile P xs"
  by (induction xs) auto

lemma dropWhile_append_stop: "\<not> P y \<Longrightarrow> dropWhile P (xs @ y # ys) = dropWhile P xs @ y # ys"
  by (induction xs) auto

lemma takeWhile_prefix_stop:
  assumes "ys = [] \<or> \<not> P (hd ys)"
  shows "takeWhile P (takeWhile P xs @ ys) = takeWhile P xs"
    and "dropWhile P (takeWhile P xs @ ys) = ys"
proof -
  have y: "takeWhile P ys = []" "dropWhile P ys = ys"
    using assms by (cases ys; simp)+
  show "takeWhile P (takeWhile P xs @ ys) = takeWhile P xs"
    by (induction xs) (simp_all add: y)
  show "dropWhile P (takeWhile P xs @ ys) = ys"
    by (induction xs) (simp_all add: y)
qed

lemma dropWhile_stops: "dropWhile P xs = [] \<or> \<not> P (hd (dropWhile P xs))"
  by (induction xs) auto

lemma strip_scheme_SomeD:
  "strip_scheme url = Some (scheme, rest) \<Longrightarrow>
   url = scheme @ rest \<and> (scheme = ''http://'' \<or> scheme = ''https://'')"
  by (auto simp add: strip_scheme_def split: if_splits)

lemma strip_scheme_SomeI:
  "scheme = ''http://'' \<or> scheme = ''https://'' \<Longrightarrow> strip_scheme (scheme @ rest) = Some (scheme, rest)"
  by (auto simp add: strip_scheme_def)

lemma strip_scheme_append:
  "strip_scheme b = Some (scheme, rest) \<Longrightarrow> strip_scheme (b @ p) = Some (scheme, rest @ p)"
  using strip_scheme_SomeD[of b scheme rest] strip_scheme_SomeI[of scheme "rest @ p"]
  by (simp del: append_Cons)

lemma cleanUrl_append:
  assumes "strip_scheme b = Some (scheme, rest)"
    and "takeWhile (\<lambda>c. c \<noteq> CHR ''/'') rest = h # hs"
  shows "cleanUrl (b @ CHR ''/'' # p) =
         Some (scheme @ (h # hs) @ collapse (dropWhile (\<lambda>c. c \<noteq> CHR ''/'') rest @ CHR ''/'' # p))"
  using assms
  by (simp add: cleanUrl_def strip_scheme_append takeWhile_append_stop dropWhile_append_stop)

lemma cleanUrl_trailing_slash:
  assumes "cleanUrl b \<noteq> None"
  shows "cleanUrl ((b @ ''/'') @ CHR ''/'' # p) = cleanUrl (b @ CHR ''/'' # p)"
proof -
  from assms obtain scheme rest h hs where
    s: "strip_scheme b = Some (scheme, rest)" and
    t: "takeWhile (\<lambda>c. c \<noteq> CHR ''/'') rest = h # hs"
    by (auto simp add: cleanUrl_def split: option.splits list.splits)
  have s': "strip_scheme (b @ ''/'') = Some (scheme, rest @ ''/'')"
    using s by (rule strip_scheme_append)
  have t': "takeWhile (\<lambda>c. c \<noteq> CHR ''/'') (rest @ ''/'') = h # hs"
    using t by (simp add: takeWhile_append_stop)
  have d': "dropWhile (\<lambda>c. c \<noteq> CHR ''/'') (rest @ ''/'') = dropWhile (\<lambda>c. c \<noteq> CHR ''/'') rest @ ''/''"
    by (simp add: dropWhile_append_stop)
  show ?thesis
    by (simp only: cleanUrl_append[OF s t] cleanUrl_append[OF s' t'] d' append_assoc append_Cons
        append_Nil collapse_double_slash)
qed

lemma cleanUrl_idem:
  assumes "cleanUrl url = Some u"
  shows "cleanUrl u = Some u"
proof -
  define P where "P = (\<lambda>c. c \<noteq> CHR ''/'')"
  from assms obtain scheme rest where
    s: "strip_scheme url = Some (scheme, rest)" and
    t: "takeWhile P rest \<noteq> []" and
    u: "u = scheme @ takeWhile P rest @ collapse (dropWhile P rest)"
    unfolding P_def by (auto simp add: cleanUrl_def split: option.splits list.splits)
  have stop: "collapse (dropWhile P rest) = [] \<or> \<not> P (hd (collapse (dropWhile P rest)))"
    by (rule collapse_stops) (rule dropWhile_stops)
  have s': "strip_scheme u = Some (scheme, takeWhile P rest @ collapse (dropWhile P rest))"
    unfolding u using strip_scheme_SomeD[OF s] by (intro strip_scheme_SomeI) simp
  note tw = takeWhile_prefix_stop[of "collapse (dropWhile P rest)" P rest, OF stop]
  have "cleanUrl u =
      (case takeWhile P rest of [] \<Rightarrow> None
       | h # hs \<Rightarrow> Some (scheme @ (h # hs) @ collapse (collapse (dropWhile P rest))))"
    by (simp only: cleanUrl_def s' option.case prod.case tw P_def[symmetric])
  with t show ?thesis
    by (simp add: u collapse_idem split: list.splits)
qed

text \<open>
  C8. \<open>cleanUrl\<close> is idempotent: a normalised URL is normalised to itself. For a base
  URI that is an absolute URL (\<open>cleanUrl\<close> accepts it), a slash at the end of the
  base URI makes no difference to the URL of any path that starts with a slash; in
  particular the URLs of both operations are the same with and without it.
\<close>

theorem cleanUrl_normalises:
  "(cleanUrl url = Some u \<longrightarrow> cleanUrl u = Some u) \<and>
   (cleanUrl base \<noteq> None \<longrightarrow>
      cleanUrl ((base @ ''/'') @ CHR ''/'' # path) = cleanUrl (base @ CHR ''/'' # path) \<and>
      queryUrl (getCheckReplies_options (cfg\<lparr>BASEURI := base @ ''/''\<rparr>)) =
        queryUrl (getCheckReplies_options (cfg\<lparr>BASEURI := base\<rparr>)) \<and>
      queryUrl (createConfirmRepliesAsReceived_options env (cfg\<lparr>BASEURI := base @ ''/''\<rparr>) b) =
        queryUrl (createConfirmRepliesAsReceived_options env (cfg\<lparr>BASEURI := base\<rparr>) b))"
proof (intro conjI impI)
  assume "cleanUrl url = Some u"
  then show "cleanUrl u = Some u" by (rule cleanUrl_idem)
next
  assume a: "cleanUrl base \<noteq> None"
  show "cleanUrl ((base @ ''/'') @ CHR ''/'' # path) = cleanUrl (base @ CHR ''/'' # path)"
    using a by (rule cleanUrl_trailing_slash)
  show "queryUrl (getCheckReplies_options (cfg\<lparr>BASEURI := base @ ''/''\<rparr>)) =
        queryUrl (getCheckReplies_options (cfg\<lparr>BASEURI := base\<rparr>))"
    using cleanUrl_trailing_slash[OF a, of "''v1/replies''"]
    by (simp add: getCheckReplies_options_def)
  show "queryUrl (createConfirmRepliesAsReceived_options env (cfg\<lparr>BASEURI := base @ ''/''\<rparr>) b) =
        queryUrl (createConfirmRepliesAsReceived_options env (cfg\<lparr>BASEURI := base\<rparr>) b)"
    using cleanUrl_trailing_slash[OF a, of "''v1/replies/confirmed''"]
    by (simp add: createConfirmRepliesAsReceived_options_def)
qed

theorem cleanUrl_normalises_witness:
  "cleanUrl ''https://api.messagemedia.com//v1//replies'' = Some ''https://api.messagemedia.com/v1/replies'' \<and>
   cleanUrl ''https://api.messagemedia.com/v1/replies'' = Some ''https://api.messagemedia.com/v1/replies'' \<and>
   queryUrl (getCheckReplies_options (sample_configuration\<lparr>BASEURI := ''https://api.messagemedia.com/''\<rparr>)) =
     queryUrl (getCheckReplies_options sample_configuration)"
  using cleanUrl_normalises [where url = "''https://api.messagemedia.com//v1//replies''"
      and u = "''https://api.messagemedia.com/v1/replies''"
      and base = "''https://api.messagemedia.com''" and cfg = sample_configuration
      and path = "''v1/replies''" and b = JNull
      and env = "sample_env (JNull, None, ''context'')"]
  by (simp add: cleanUrl_def strip_scheme_def sample_configuration_def)

section \<open>What a call changes\<close>



lemma cleanElements_map: "cleanElements vs = map cleanObject vs"
  by (induction vs) simp_all








end
